theory Spec2Isabelle
  imports Main "HOL-Library.Word"
begin

unbundle bit_operations_syntax

section \<open>The event model of fsnotify.go\<close>

text \<open>
  \<^verbatim>\<open>type Op uint32\<close>: a set of file operations, kept as a bitmask in an unsigned
  32-bit integer.
\<close>

type_synonym Op = "32 word"

text \<open>
  \<^verbatim>\<open>const ( Create Op = 1 << iota; Write; Remove; Rename; Chmod )\<close>: the constant
  declared at position \<open>iota\<close> of the block is \<open>1 << iota\<close>.
\<close>

definition Create :: Op where "Create = push_bit 0 1"
definition Write :: Op where "Write = push_bit 1 1"
definition Remove :: Op where "Remove = push_bit 2 1"
definition Rename :: Op where "Rename = push_bit 3 1"
definition Chmod :: Op where "Chmod = push_bit 4 1"

text \<open>\<^verbatim>\<open>func (o Op) Has(h Op) bool { return o&h == h }\<close>\<close>

definition Has :: "Op \<Rightarrow> Op \<Rightarrow> bool" where
  "Has o' h = (o' AND h = h)"

text \<open>
  \<^verbatim>\<open>func (o Op) String() string\<close>. The \<^verbatim>\<open>strings.Builder\<close> is the byte string
  written so far; each \<^verbatim>\<open>WriteString\<close> appends to it. \<^verbatim>\<open>b.String()[1:]\<close> is taken
  only when the builder is not empty, so the slice is in range.
\<close>

definition WriteString :: "string \<Rightarrow> string \<Rightarrow> string" where
  "WriteString b s = b @ s"

definition Op_String :: "Op \<Rightarrow> string" where
  "Op_String o' =
    (let b = [];
         b = (if Has o' Create then WriteString b ''|CREATE'' else b);
         b = (if Has o' Remove then WriteString b ''|REMOVE'' else b);
         b = (if Has o' Write then WriteString b ''|WRITE'' else b);
         b = (if Has o' Rename then WriteString b ''|RENAME'' else b);
         b = (if Has o' Chmod then WriteString b ''|CHMOD'' else b)
     in if length b = 0 then ''[no events]'' else drop 1 b)"

text \<open>\<^verbatim>\<open>type Event struct { Name string; Op Op }\<close>\<close>

record Event =
  Name :: string
  Op :: Op

text \<open>\<^verbatim>\<open>func (e Event) Has(op Op) bool { return e.Op.Has(op) }\<close>\<close>

definition Event_Has :: "Event \<Rightarrow> Op \<Rightarrow> bool" where
  "Event_Has e op = Has (Op e) op"

section \<open>Library primitives used by the source: unicode/utf8, strconv and fmt\<close>

text \<open>
  \<^verbatim>\<open>Event.String\<close> is \<^verbatim>\<open>fmt.Sprintf("%-13s %q", e.Op.String(), e.Name)\<close>. The verb
  \<^verbatim>\<open>%q\<close> is \<^verbatim>\<open>strconv.Quote\<close>, which reads the string rune by rune; the verb
  \<^verbatim>\<open>%-13s\<close> pads on the right up to 13 runes. Bytes are \<^typ>\<open>char\<close>, runes are
  natural numbers.
\<close>

definition RuneError :: nat where "RuneError = 0xFFFD"

text \<open>
  The table \<^verbatim>\<open>first\<close> of \<^verbatim>\<open>unicode/utf8\<close> with its \<^verbatim>\<open>acceptRanges\<close>, for a lead
  byte from \<^verbatim>\<open>0x80\<close> on: the size of the sequence and the range accepted for its
  second byte, or nothing for a byte that starts no sequence.
\<close>

definition first_accept :: "nat \<Rightarrow> (nat \<times> nat \<times> nat) option" where
  "first_accept b =
     (if 0xC2 \<le> b \<and> b \<le> 0xDF then Some (2, 0x80, 0xBF)
      else if b = 0xE0 then Some (3, 0xA0, 0xBF)
      else if 0xE1 \<le> b \<and> b \<le> 0xEC then Some (3, 0x80, 0xBF)
      else if b = 0xED then Some (3, 0x80, 0x9F)
      else if 0xEE \<le> b \<and> b \<le> 0xEF then Some (3, 0x80, 0xBF)
      else if b = 0xF0 then Some (4, 0x90, 0xBF)
      else if 0xF1 \<le> b \<and> b \<le> 0xF3 then Some (4, 0x80, 0xBF)
      else if b = 0xF4 then Some (4, 0x80, 0x8F)
      else None)"

text \<open>\<^verbatim>\<open>func DecodeRuneInString(s string) (rune, int)\<close>: the rune and its width.\<close>

definition DecodeRuneInString :: "string \<Rightarrow> nat \<times> nat" where
  "DecodeRuneInString s =
     (case s of [] \<Rightarrow> (RuneError, 0)
      | c0 # _ \<Rightarrow>
        (let s0 = (of_char c0 :: nat) in
         if s0 < 0x80 then (s0, 1)
         else
           (case first_accept s0 of None \<Rightarrow> (RuneError, 1)
            | Some (sz, lo, hi) \<Rightarrow>
              if length s < sz then (RuneError, 1)
              else
                (let s1 = (of_char (s ! 1) :: nat) in
                 if s1 < lo \<or> hi < s1 then (RuneError, 1)
                 else if sz \<le> 2 then (push_bit 6 (s0 AND 0x1F) OR (s1 AND 0x3F), 2)
                 else
                   (let s2 = (of_char (s ! 2) :: nat) in
                    if s2 < 0x80 \<or> 0xBF < s2 then (RuneError, 1)
                    else if sz \<le> 3 then
                      (push_bit 12 (s0 AND 0x0F) OR push_bit 6 (s1 AND 0x3F) OR (s2 AND 0x3F), 3)
                    else
                      (let s3 = (of_char (s ! 3) :: nat) in
                       if s3 < 0x80 \<or> 0xBF < s3 then (RuneError, 1)
                       else
                         (push_bit 18 (s0 AND 0x07) OR push_bit 12 (s1 AND 0x3F) OR
                          push_bit 6 (s2 AND 0x3F) OR (s3 AND 0x3F), 4)))))))"

text \<open>
  \<^verbatim>\<open>func RuneCountInString(s string) int\<close>: one for every byte below \<^verbatim>\<open>0x80\<close>, for
  every well-formed sequence and for every byte that is part of none.
\<close>

fun RuneCountInString :: "string \<Rightarrow> nat" where
  "RuneCountInString [] = 0"
| "RuneCountInString (c # cs) =
     Suc (RuneCountInString (drop (snd (DecodeRuneInString (c # cs)) - 1) cs))"

text \<open>\<^verbatim>\<open>func AppendRune(p []byte, r rune) []byte\<close>, as the bytes it appends.\<close>

definition AppendRune :: "nat \<Rightarrow> string" where
  "AppendRune r =
     (if r \<le> 0x7F then [char_of r]
      else if r \<le> 0x7FF then
        [char_of (0xC0 OR drop_bit 6 r), char_of (0x80 OR (r AND 0x3F))]
      else
        (let r = (if r > 0x10FFFF \<or> 0xD800 \<le> r \<and> r \<le> 0xDFFF then RuneError else r) in
         if r \<le> 0xFFFF then
           [char_of (0xE0 OR drop_bit 12 r), char_of (0x80 OR (drop_bit 6 r AND 0x3F)),
            char_of (0x80 OR (r AND 0x3F))]
         else
           [char_of (0xF0 OR drop_bit 18 r), char_of (0x80 OR (drop_bit 12 r AND 0x3F)),
            char_of (0x80 OR (drop_bit 6 r AND 0x3F)), char_of (0x80 OR (r AND 0x3F))]))"

text \<open>\<^verbatim>\<open>func ValidRune(r rune) bool\<close>\<close>

definition ValidRune :: "nat \<Rightarrow> bool" where
  "ValidRune r = (r < 0xD800 \<or> 0xDFFF < r \<and> r \<le> 0x10FFFF)"

text \<open>
  \<^verbatim>\<open>func IsPrint(r rune) bool\<close> of \<^verbatim>\<open>strconv\<close>. Up to \<^verbatim>\<open>0xFF\<close> it is written out
  in the library; beyond, it searches the Unicode tables \<^verbatim>\<open>isPrint16\<close>,
  \<^verbatim>\<open>isNotPrint16\<close>, \<^verbatim>\<open>isPrint32\<close> and \<^verbatim>\<open>isNotPrint32\<close>, which are taken here as the
  parameter \<open>tables\<close>.
\<close>

definition IsPrint :: "(nat \<Rightarrow> bool) \<Rightarrow> nat \<Rightarrow> bool" where
  "IsPrint tables r =
     (if r \<le> 0xFF then
        (if 0x20 \<le> r \<and> r \<le> 0x7E then True
         else if 0xA1 \<le> r \<and> r \<le> 0xFF then r \<noteq> 0xAD
         else False)
      else tables r)"

definition lowerhex :: string where
  "lowerhex = ''0123456789abcdef''"

text \<open>
  The loops \<^verbatim>\<open>for s := 12; s >= 0; s -= 4 { buf = append(buf, lowerhex[r>>uint(s)&0xF]) }\<close>
  of \<^verbatim>\<open>appendEscapedRune\<close>: \<open>hex_digits k r\<close> is the \<open>k\<close> lowest hexadecimal digits
  of \<open>r\<close>, the highest first.
\<close>

fun hex_digits :: "nat \<Rightarrow> nat \<Rightarrow> string" where
  "hex_digits 0 r = []"
| "hex_digits (Suc k) r = lowerhex ! (drop_bit (4 * k) r AND 0xF) # hex_digits k r"

text \<open>
  \<^verbatim>\<open>func appendEscapedRune(buf []byte, r rune, quote byte, ASCIIonly, graphicOnly bool)\<close>
  for \<^verbatim>\<open>quote = '"'\<close> and both flags false, as \<^verbatim>\<open>Quote\<close> calls it; the result is
  what it appends.
\<close>

definition appendEscapedRune :: "(nat \<Rightarrow> bool) \<Rightarrow> nat \<Rightarrow> string" where
  "appendEscapedRune tables r =
     (if r = 0x22 \<or> r = 0x5C then [CHR 0x5C, char_of r]
      else if IsPrint tables r then AppendRune r
      else if r = 0x07 then [CHR 0x5C, CHR ''a'']
      else if r = 0x08 then [CHR 0x5C, CHR ''b'']
      else if r = 0x0C then [CHR 0x5C, CHR ''f'']
      else if r = 0x0A then [CHR 0x5C, CHR ''n'']
      else if r = 0x0D then [CHR 0x5C, CHR ''r'']
      else if r = 0x09 then [CHR 0x5C, CHR ''t'']
      else if r = 0x0B then [CHR 0x5C, CHR ''v'']
      else if r < 0x20 \<or> r = 0x7F then [CHR 0x5C, CHR ''x''] @ hex_digits 2 r
      else if \<not> ValidRune r then [CHR 0x5C, CHR ''u''] @ hex_digits 4 RuneError
      else if r < 0x10000 then [CHR 0x5C, CHR ''u''] @ hex_digits 4 r
      else [CHR 0x5C, CHR ''U''] @ hex_digits 8 r)"

text \<open>
  The loop of \<^verbatim>\<open>appendQuotedWith\<close>:
  \<^verbatim>\<open>for width := 0; len(s) > 0; s = s[width:] { ... }\<close>. A byte that is part of no
  well-formed sequence is written as \<^verbatim>\<open>\x\<close> and its two hexadecimal digits.
\<close>

fun quote_loop :: "(nat \<Rightarrow> bool) \<Rightarrow> string \<Rightarrow> string" where
  "quote_loop tables [] = []"
| "quote_loop tables (c # cs) =
     (let (r, width) = (if (of_char c :: nat) \<ge> 0x80 then DecodeRuneInString (c # cs)
                        else (of_char c, 1))
      in (if width = 1 \<and> r = RuneError
          then [CHR 0x5C, CHR ''x''] @ hex_digits 2 (of_char c)
          else appendEscapedRune tables r)
         @ quote_loop tables (drop (width - 1) cs))"

text \<open>\<^verbatim>\<open>func Quote(s string) string\<close>: the escaped string between double quotes.\<close>

definition Quote :: "(nat \<Rightarrow> bool) \<Rightarrow> string \<Rightarrow> string" where
  "Quote tables s = [CHR 0x22] @ quote_loop tables s @ [CHR 0x22]"

text \<open>
  The verb \<^verbatim>\<open>%-13s\<close> (\<^verbatim>\<open>fmt.padString\<close> with the minus flag): when the string has
  fewer runes than the width, the missing ones are written as spaces after it; a longer
  string is written whole.
\<close>

definition padString_minus :: "nat \<Rightarrow> string \<Rightarrow> string" where
  "padString_minus wid s = s @ replicate (wid - RuneCountInString s) CHR '' ''"

text \<open>
  \<^verbatim>\<open>func (e Event) String() string { return fmt.Sprintf("%-13s %q", e.Op.String(), e.Name) }\<close>
\<close>

definition Event_String :: "(nat \<Rightarrow> bool) \<Rightarrow> Event \<Rightarrow> string" where
  "Event_String tables e =
     padString_minus 13 (Op_String (Op e)) @ '' '' @ Quote tables (Name e)"

section \<open>Library primitives used by the source: path/filepath on Unix\<close>

text \<open>
  The functions of \<^verbatim>\<open>path/filepath\<close> that the source calls, for the Unix build:
  the separator is \<^verbatim>\<open>/\<close> and the volume name is always empty. Strings are byte
  strings, as in Go.
\<close>

definition IsPathSeparator :: "char \<Rightarrow> bool" where
  "IsPathSeparator c = (c = CHR ''/'')"

text \<open>
  \<^verbatim>\<open>r+k == n || os.IsPathSeparator(path[r+k])\<close> of \<^verbatim>\<open>Clean\<close>, on the rest of the
  path from index \<open>r+k\<close>: the element ends here.
\<close>

definition elem_end :: "string \<Rightarrow> bool" where
  "elem_end s = (case s of [] \<Rightarrow> True | c # _ \<Rightarrow> IsPathSeparator c)"

text \<open>
  The \<^verbatim>\<open>..\<close> case of \<^verbatim>\<open>Clean\<close> when it can backtrack:
  \<^verbatim>\<open>out.w--; for out.w > dotdot && !os.IsPathSeparator(out.index(out.w)) { out.w-- }\<close>.
  The buffer keeps its bytes while \<open>w\<close> moves down; the output is then its first
  \<open>w\<close> bytes.
\<close>

function backtrack_loop :: "string \<Rightarrow> nat \<Rightarrow> nat \<Rightarrow> nat" where
  "backtrack_loop out dotdot w =
     (if w > dotdot \<and> \<not> IsPathSeparator (out ! w)
      then backtrack_loop out dotdot (w - 1) else w)"
  by pat_completeness auto
termination
  by (relation "measure (\<lambda>(out, dotdot, w). w)") auto

definition backtrack :: "string \<Rightarrow> nat \<Rightarrow> string" where
  "backtrack out dotdot = take (backtrack_loop out dotdot (length out - 1)) out"

text \<open>
  The main loop of \<^verbatim>\<open>Clean\<close>: \<^verbatim>\<open>for r < n { switch { ... } }\<close>. The first
  argument is \<^verbatim>\<open>rooted\<close>, the second the unread rest \<^verbatim>\<open>path[r:]\<close>, the third the
  bytes written so far (the \<^verbatim>\<open>lazybuf\<close>, whose length is \<^verbatim>\<open>out.w\<close>), the fourth
  \<^verbatim>\<open>dotdot\<close>. The cases are those of the \<^verbatim>\<open>switch\<close>, in its order: an empty
  element, a \<^verbatim>\<open>.\<close> element, a \<^verbatim>\<open>..\<close> element, a real element.
\<close>

function clean_loop :: "bool \<Rightarrow> string \<Rightarrow> string \<Rightarrow> nat \<Rightarrow> string" where
  "clean_loop rooted [] out dotdot = out"
| "clean_loop rooted (c # cs) out dotdot =
     (if IsPathSeparator c then clean_loop rooted cs out dotdot
      else if c = CHR ''.'' \<and> elem_end cs then clean_loop rooted cs out dotdot
      else if c = CHR ''.'' \<and> take 1 cs = ''.'' \<and> elem_end (drop 1 cs) then
        (if length out > dotdot then
           clean_loop rooted (drop 1 cs) (backtrack out dotdot) dotdot
         else if \<not> rooted then
           (let out1 = (if length out > 0 then out @ ''/'' else out) @ ''..''
            in clean_loop rooted (drop 1 cs) out1 (length out1))
         else clean_loop rooted (drop 1 cs) out dotdot)
      else
        (let out1 = (if rooted \<and> length out \<noteq> 1 \<or> \<not> rooted \<and> length out \<noteq> 0
                     then out @ ''/'' else out)
         in clean_loop rooted (dropWhile (\<lambda>x. \<not> IsPathSeparator x) (c # cs))
              (out1 @ takeWhile (\<lambda>x. \<not> IsPathSeparator x) (c # cs)) dotdot))"
  by pat_completeness auto
termination
proof (relation "measure (\<lambda>(rooted, p, out, dotdot). length p)")
  fix c :: char and cs :: string
  assume "\<not> IsPathSeparator c"
  then have "dropWhile (\<lambda>x. \<not> IsPathSeparator x) (c # cs) =
             dropWhile (\<lambda>x. \<not> IsPathSeparator x) cs"
    by simp
  moreover have "length (dropWhile (\<lambda>x. \<not> IsPathSeparator x) cs) \<le> length cs"
    by (rule length_dropWhile_le)
  ultimately show "\<And>rooted out dotdot x.
       ((rooted, dropWhile (\<lambda>x. \<not> IsPathSeparator x) (c # cs), x, dotdot),
        (rooted, c # cs, out, dotdot)) \<in> measure (\<lambda>(rooted, p, out, dotdot). length p)"
    by simp
qed auto

text \<open>
  \<^verbatim>\<open>func Clean(path string) string\<close>: the empty path is \<^verbatim>\<open>.\<close>; a rooted path
  starts the output with the separator and \<^verbatim>\<open>r, dotdot = 1, 1\<close>; an output left empty
  becomes \<^verbatim>\<open>.\<close>.
\<close>

definition Clean :: "string \<Rightarrow> string" where
  "Clean path =
     (if path = [] then ''.''
      else
        (let rooted = IsPathSeparator (hd path);
             out = (if rooted then clean_loop rooted (drop 1 path) ''/'' 1
                    else clean_loop rooted path [] 0)
         in if length out = 0 then ''.'' else out))"

text \<open>
  \<^verbatim>\<open>func Base(path string) string\<close>: strip the trailing separators, keep what
  follows the last separator left; a path of separators only is \<^verbatim>\<open>/\<close>.
\<close>

definition Base :: "string \<Rightarrow> string" where
  "Base path =
     (if path = [] then ''.''
      else
        (let path1 = rev (dropWhile IsPathSeparator (rev path));
             path2 = rev (takeWhile (\<lambda>x. \<not> IsPathSeparator x) (rev path1))
         in if path2 = [] then ''/'' else path2))"

text \<open>
  \<^verbatim>\<open>func Dir(path string) string\<close>: \<^verbatim>\<open>Clean\<close> of the path up to and including its
  last separator.
\<close>

definition Dir :: "string \<Rightarrow> string" where
  "Dir path = Clean (rev (dropWhile (\<lambda>x. \<not> IsPathSeparator x) (rev path)))"

text \<open>
  \<^verbatim>\<open>filepath.Join(a, b)\<close>: the elements from the first non-empty one on, joined by
  the separator and cleaned; the empty string when both are empty.
\<close>

definition Join :: "string \<Rightarrow> string \<Rightarrow> string" where
  "Join a b =
     (if a \<noteq> [] then Clean (a @ ''/'' @ b)
      else if b \<noteq> [] then Clean b
      else [])"

section \<open>Library primitives used by the source: the file system and filepath.WalkDir\<close>

text \<open>
  An error of the operating system, the \<^verbatim>\<open>*fs.PathError\<close> that \<^verbatim>\<open>os.Lstat\<close> and
  \<^verbatim>\<open>os.ReadDir\<close> return: the operation, the path and the error number.
\<close>

datatype os_error = PathError string string nat

text \<open>
  The values of Go's \<^verbatim>\<open>error\<close> that occur: the five errors the package declares,
  the two sentinels \<^verbatim>\<open>fs.SkipDir\<close> and \<^verbatim>\<open>fs.SkipAll\<close> that \<^verbatim>\<open>WalkDir\<close> compares with,
  an error of the operating system, and \<open>Errorf_q_w p e\<close>, the value of
  \<^verbatim>\<open>fmt.Errorf("%q: %w", p, e)\<close>: its text is the quoted \<open>p\<close>, a colon, a space and
  the text of \<open>e\<close>, and it unwraps to \<open>e\<close>. \<open>NilDereference\<close> stands for the run-time
  panic of a method call on a nil \<^verbatim>\<open>fs.DirEntry\<close>.
\<close>

datatype error =
    ErrNonExistentWatch
  | ErrEventOverflow
  | ErrClosed
  | ErrNotDirectory
  | ErrRecursionUnsupported
  | SkipDir
  | SkipAll
  | FsError os_error
  | Errorf_q_w string error
  | NilDereference

text \<open>\<^verbatim>\<open>errors.Unwrap\<close> and \<^verbatim>\<open>errors.Is\<close> on these values.\<close>

fun Unwrap :: "error \<Rightarrow> error option" where
  "Unwrap (Errorf_q_w p e) = Some e"
| "Unwrap _ = None"

fun errors_Is :: "error \<Rightarrow> error \<Rightarrow> bool" where
  "errors_Is (Errorf_q_w p e) target = (Errorf_q_w p e = target \<or> errors_Is e target)"
| "errors_Is e target = (e = target)"

text \<open>
  What the traversal can see of a file: a directory with what \<^verbatim>\<open>os.ReadDir\<close> returns
  for it (the entries read, by name and sorted by name as \<^verbatim>\<open>os.ReadDir\<close> leaves them,
  and the error if reading failed), a symbolic link with its target, or another file.
  \<^verbatim>\<open>os.Lstat\<close> and the entries of \<^verbatim>\<open>os.ReadDir\<close> do not follow a link.
\<close>

datatype DirEntry =
    RegularFile
  | Symlink string
  | Directory "(string \<times> DirEntry) list" "os_error option"

text \<open>
  The state of the file system, as \<^verbatim>\<open>os.Lstat\<close> answers for a path: an error, or the
  file there.
\<close>

type_synonym filesystem = "string \<Rightarrow> os_error + DirEntry"

definition Lstat :: "filesystem \<Rightarrow> string \<Rightarrow> os_error + DirEntry" where
  "Lstat fs p = fs p"

text \<open>\<^verbatim>\<open>d.IsDir()\<close> of an \<^verbatim>\<open>fs.DirEntry\<close>\<close>

fun IsDir :: "DirEntry \<Rightarrow> bool" where
  "IsDir (Directory es err) = True"
| "IsDir _ = False"

text \<open>\<^verbatim>\<open>os.ReadDir\<close> on the path of a file that \<^verbatim>\<open>IsDir\<close>\<close>

fun ReadDir :: "DirEntry \<Rightarrow> (string \<times> DirEntry) list \<times> os_error option" where
  "ReadDir (Directory es err) = (es, err)"
| "ReadDir _ = ([], None)"

text \<open>
  A \<^verbatim>\<open>fs.WalkDirFunc\<close> that reads and writes variables of its closure is a function
  from their state, the path, the entry (\<open>None\<close> for nil) and the error (\<open>None\<close> for
  nil) to the new state and the error it returns.
\<close>

type_synonym 's WalkDirFunc =
  "'s \<Rightarrow> string \<Rightarrow> DirEntry option \<Rightarrow> error option \<Rightarrow> 's \<times> error option"

text \<open>
  \<^verbatim>\<open>func walkDir(path string, d fs.DirEntry, walkDirFn fs.WalkDirFunc) error\<close> of
  \<^verbatim>\<open>path/filepath\<close>, and its loop \<^verbatim>\<open>for _, d1 := range dirs\<close> as \<open>walkDir_range\<close>.
\<close>

function walkDir :: "string \<Rightarrow> DirEntry \<Rightarrow> 's WalkDirFunc \<Rightarrow> 's \<Rightarrow> 's \<times> error option"
  and walkDir_range ::
    "string \<Rightarrow> (string \<times> DirEntry) list \<Rightarrow> 's WalkDirFunc \<Rightarrow> 's \<Rightarrow> 's \<times> error option"
where
  "walkDir path d walkDirFn s =
     (let (s, err) = walkDirFn s path (Some d) None
      in if err \<noteq> None \<or> \<not> IsDir d
         then (s, if err = Some SkipDir \<and> IsDir d then None else err)
         else
           (let (dirs, rerr) = ReadDir d;
                (s, err) = (case rerr of None \<Rightarrow> (s, None)
                            | Some e \<Rightarrow> walkDirFn s path (Some d) (Some (FsError e)))
            in if err \<noteq> None
               then (s, if err = Some SkipDir \<and> IsDir d then None else err)
               else walkDir_range path dirs walkDirFn s))"
| "walkDir_range path [] walkDirFn s = (s, None)"
| "walkDir_range path ((name, d1) # dirs) walkDirFn s =
     (let path1 = Join path name;
          (s, err) = walkDir path1 d1 walkDirFn s
      in if err \<noteq> None then (if err = Some SkipDir then (s, None) else (s, err))
         else walkDir_range path dirs walkDirFn s)"
  by pat_completeness auto
termination
  apply (relation "measure (\<lambda>x. case x of
         Inl (path, d, walkDirFn, s) \<Rightarrow> size d
       | Inr (path, dirs, walkDirFn, s) \<Rightarrow> size_list (size_prod (\<lambda>_. 0) size) dirs)")
    apply simp_all
  subgoal for path d walkDirFn s x xa xb xc
    by (cases d) auto
  done

text \<open>\<^verbatim>\<open>func WalkDir(root string, fn fs.WalkDirFunc) error\<close>\<close>

definition WalkDir :: "filesystem \<Rightarrow> string \<Rightarrow> 's WalkDirFunc \<Rightarrow> 's \<Rightarrow> 's \<times> error option" where
  "WalkDir fs root fn s =
     (let (s, err) = (case Lstat fs root of
                        Inl e \<Rightarrow> fn s root None (Some (FsError e))
                      | Inr info \<Rightarrow> walkDir root info fn s)
      in if err = Some SkipDir \<or> err = Some SkipAll then (s, None) else (s, err))"

section \<open>The path resolver of fsnotify.go\<close>

text \<open>
  \<^verbatim>\<open>func recursivePath(path string) (string, bool)\<close>
\<close>

definition recursivePath :: "string \<Rightarrow> string \<times> bool" where
  "recursivePath path =
     (if Base path = ''...'' then (Dir path, True) else (path, False))"

text \<open>
  The function literal that \<^verbatim>\<open>findDirs\<close> passes to \<^verbatim>\<open>filepath.WalkDir\<close>. It reads
  \<^verbatim>\<open>path\<close> and appends to \<^verbatim>\<open>dirs\<close>, the state here.
\<close>

definition findDirs_func :: "string \<Rightarrow> string list WalkDirFunc" where
  "findDirs_func path dirs root d err =
     (case err of Some e \<Rightarrow> (dirs, Some e)
      | None \<Rightarrow>
        (case d of None \<Rightarrow> (dirs, Some NilDereference)
         | Some d \<Rightarrow>
           if root = path \<and> \<not> IsDir d then (dirs, Some (Errorf_q_w path ErrNotDirectory))
           else if IsDir d then (dirs @ [root], None)
           else (dirs, None)))"

text \<open>
  \<^verbatim>\<open>func findDirs(path string) ([]string, error)\<close>, on a state of the file system. The
  nil slice that is returned with an error is the empty list.
\<close>

definition findDirs :: "filesystem \<Rightarrow> string \<Rightarrow> string list \<times> error option" where
  "findDirs fs path =
     (let dirs = [];
          (dirs, err) = WalkDir fs path (findDirs_func path) dirs
      in if err \<noteq> None then ([], err) else (dirs, None))"

section \<open>What the specification says, as definitions\<close>

text \<open>
  The rendering of an operation as the specification words it: the flags in the fixed
  order Create, Remove, Write, Rename, Chmod, each with its tag; the tags of the flags
  that are set, joined by the separator; the sentinel when there is none.
\<close>

fun join_with :: "string \<Rightarrow> string list \<Rightarrow> string" where
  "join_with sep [] = []"
| "join_with sep [x] = x"
| "join_with sep (x # y # ys) = x @ sep @ join_with sep (y # ys)"

definition rendering_order :: "(Op \<times> string) list" where
  "rendering_order =
     [(Create, ''CREATE''), (Remove, ''REMOVE''), (Write, ''WRITE''),
      (Rename, ''RENAME''), (Chmod, ''CHMOD'')]"

definition render_flags :: "Op \<Rightarrow> string" where
  "render_flags o' =
     (let tags = map snd (filter (\<lambda>(f, tag). Has o' f) rendering_order)
      in if tags = [] then ''[no events]'' else join_with ''|'' tags)"

section \<open>The operation bitmask\<close>

lemmas flag_defs = Create_def Write_def Remove_def Rename_def Chmod_def

text \<open>
  Claim C1. For all operation values \<open>o\<close> and \<open>h\<close>, also when \<open>h\<close> combines several
  flags, \<open>o.Has(h)\<close> is true exactly when every bit set in \<open>h\<close> is set in \<open>o\<close>, which
  is \<open>o & h == h\<close>. \<open>Has\<close> is a total function of its two arguments.
\<close>

theorem Has_iff_every_bit:
  "(Has o' h \<longleftrightarrow> (\<forall>n. bit h n \<longrightarrow> bit o' n)) \<and> (Has o' h \<longleftrightarrow> o' AND h = h)"
proof -
  have "(o' AND h = h) \<longleftrightarrow> (\<forall>n. bit h n \<longrightarrow> bit o' n)"
  proof
    assume eq: "o' AND h = h"
    show "\<forall>n. bit h n \<longrightarrow> bit o' n"
    proof (intro allI impI)
      fix n assume "bit h n"
      then have "bit (o' AND h) n" by (simp add: eq)
      then show "bit o' n" by (simp add: bit_and_iff)
    qed
  next
    assume sub: "\<forall>n. bit h n \<longrightarrow> bit o' n"
    show "o' AND h = h"
      by (rule bit_eqI) (use sub in \<open>auto simp: bit_and_iff\<close>)
  qed
  then show ?thesis by (simp add: Has_def)
qed

theorem Has_iff_every_bit_witness:
  "Has (Create OR Write OR Chmod) (Create OR Chmod) \<and>
   bit (Create OR Write OR Chmod) 4 \<and>
   \<not> Has Create (Create OR Write)"
proof -
  have yes: "Has (Create OR Write OR Chmod) (Create OR Chmod)"
    by (simp add: Has_def flag_defs)
  have b4: "bit (Create OR Chmod) 4"
    by (simp add: flag_defs bit_or_iff bit_push_bit_iff)
  have b1: "bit (Create OR Write) 1" and nb1: "\<not> bit Create 1"
    by (simp_all add: flag_defs bit_or_iff bit_push_bit_iff)
  from yes Has_iff_every_bit [of "Create OR Write OR Chmod" "Create OR Chmod"]
  have "\<forall>n. bit (Create OR Chmod) n \<longrightarrow> bit (Create OR Write OR Chmod) n"
    by blast
  with b4 have "bit (Create OR Write OR Chmod) 4"
    by blast
  moreover from b1 nb1 Has_iff_every_bit [of Create "Create OR Write"]
  have "\<not> Has Create (Create OR Write)"
    by blast
  ultimately show ?thesis
    using yes by blast
qed

text \<open>
  Claim C7. Every flag is one bit of its own, the powers of two in the order of the
  declaration: Create is 1, Write is 2, Remove is 4, Rename is 8, Chmod is 16.
\<close>

theorem flags_are_powers_of_two:
  "Create = 1 \<and> Write = 2 \<and> Remove = 4 \<and> Rename = 8 \<and> Chmod = 16 \<and>
   [Create, Write, Remove, Rename, Chmod] = map (\<lambda>i. 2 ^ i) [0, 1, 2, 3, 4] \<and>
   distinct [Create, Write, Remove, Rename, Chmod]"
  by (simp add: flag_defs)

text \<open>
  Claim C10. For every operation value \<open>o\<close>, \<open>o.Has(Op(0))\<close> is true: the empty
  operation is contained in every value, \<open>Op(0)\<close> included.
\<close>

theorem Has_zero: "Has o' 0 \<and> Has 0 0"
  by (simp add: Has_def)

text \<open>
  Claim C5. For every operation value \<open>o\<close>, \<open>o.String()\<close> is the tags of the flags set
  in \<open>o\<close>, in the fixed order Create, Remove, Write, Rename, Chmod, joined by \<open>|\<close> with
  no separator in front, and the sentinel \<open>[no events]\<close> when none of them is set; so
  \<open>Op(0).String()\<close> is \<open>[no events]\<close> and \<open>(Create|Write).String()\<close> is \<open>CREATE|WRITE\<close>.
\<close>

theorem Op_String_renders_in_fixed_order:
  "Op_String o' = render_flags o' \<and>
   Op_String 0 = ''[no events]'' \<and>
   Op_String (Create OR Write) = ''CREATE|WRITE''"
proof (intro conjI)
  show "Op_String o' = render_flags o'"
    by (cases "Has o' Create"; cases "Has o' Remove"; cases "Has o' Write";
        cases "Has o' Rename"; cases "Has o' Chmod")
       (simp_all add: Op_String_def render_flags_def rendering_order_def WriteString_def)
  show "Op_String 0 = ''[no events]''"
    by (simp add: Op_String_def Has_def flag_defs WriteString_def)
  show "Op_String (Create OR Write) = ''CREATE|WRITE''"
    by (simp add: Op_String_def Has_def flag_defs WriteString_def)
qed

end
